theory Spec2Isabelle
  imports
    Main
    "HOL-Library.Multiset"
    "HOL-Library.AList"
    "HOL-Library.Char_ord"
    "HOL-Library.List_Lexorder"
begin

text \<open>
  A model of \<open>claude-profiles.mjs\<close>: the scheduler of watch mode, the download of a stored
  profile, the archive built by a store and extracted by a restore, the verification
  gates, the fingerprint of the watched files, and the copy of a restore. The definitions
  come first; the properties follow.
\<close>

section \<open>The watch-mode scheduler of \<open>watchProfile\<close>\<close>

text \<open>
  \<open>watchProfile\<close> keeps five mutable variables in its closure (\<open>lastSaveTime\<close>,
  \<open>pendingSave\<close>, \<open>changeDetected\<close>, \<open>pendingSaveTimeout\<close>, \<open>saveCount\<close>) and reacts to
  three kinds of events of the Node event loop: a file-change notification
  (\<open>handleFileChange\<close>), a timer firing (the debounce callback or the deferred-save
  callback), and the settling of a promise an async callback is suspended on
  (\<open>await saveProfileSilent(...)\<close>, then \<open>await calculateFilesHash()\<close>).

  Times are the values of \<open>Date.now()\<close>, in milliseconds. A timer is recorded with the
  time it becomes due. Every timer the code creates is stored in \<open>pendingSaveTimeout\<close>,
  and the previous one has fired or is cleared at that moment, so at most one timer is
  live; the model keeps the live timer only (\<open>clearTimeout\<close> on a handle that has fired
  does nothing).
\<close>

datatype timer = Debounce int | Deferred int

text \<open>
  An async callback suspended at an \<open>await\<close>: in the immediate branch the callback holds
  its local \<open>now\<close>; \<open>Save\<close> tasks wait for \<open>saveProfileSilent\<close>, \<open>Hash\<close> tasks for the
  \<open>calculateFilesHash\<close> that follows a successful save.
\<close>

datatype task = SaveImmediate int | HashImmediate | SaveDeferred | HashDeferred

record watcher =
  lastSaveTime :: int
  pendingSave :: bool
  changeDetected :: bool
  pendingSaveTimeout :: "timer option"
  saveCount :: nat
  running :: "task list"

definition minSaveInterval :: int where
  "minSaveInterval = 30000"

definition debounceDelay :: int where
  "debounceDelay = 2000"

definition initial_watcher :: watcher where
  "initial_watcher =
     \<lparr>lastSaveTime = 0, pendingSave = False, changeDetected = False,
      pendingSaveTimeout = None, saveCount = 0, running = []\<rparr>"

definition handleFileChange :: "int \<Rightarrow> watcher \<Rightarrow> watcher" where
  "handleFileChange now w =
     w\<lparr>changeDetected := True, pendingSaveTimeout := Some (Debounce (now + debounceDelay))\<rparr>"

text \<open>The callback of the debounce timer, up to its first \<open>await\<close>.\<close>

definition debounce_callback :: "int \<Rightarrow> watcher \<Rightarrow> watcher" where
  "debounce_callback now w =
     (let w0 = w\<lparr>pendingSaveTimeout := None\<rparr> in
      if \<not> changeDetected w0 then w0
      else
        let w1 = w0\<lparr>changeDetected := False\<rparr>;
            timeSinceLastSave = now - lastSaveTime w1
        in if timeSinceLastSave \<ge> minSaveInterval
           then w1\<lparr>running := running w1 @ [SaveImmediate now]\<rparr>
           else if \<not> pendingSave w1
           then w1\<lparr>pendingSave := True,
                   pendingSaveTimeout :=
                     Some (Deferred (now + (minSaveInterval - timeSinceLastSave)))\<rparr>
           else w1)"

text \<open>The callback of the deferred-save timer, up to its first \<open>await\<close>.\<close>

definition deferred_callback :: "watcher \<Rightarrow> watcher" where
  "deferred_callback w =
     (let w0 = w\<lparr>pendingSaveTimeout := None\<rparr> in
      if pendingSave w0 then w0\<lparr>running := running w0 @ [SaveDeferred]\<rparr> else w0)"

definition remove_task :: "nat \<Rightarrow> task list \<Rightarrow> task list" where
  "remove_task i ts = take i ts @ drop (Suc i) ts"

text \<open>
  The continuation of a suspended callback. \<open>ok\<close> says whether the awaited promise was
  fulfilled; \<open>calculateFilesHash\<close> catches every error itself, so a \<open>Hash\<close> task always
  continues on the success path. \<open>now\<close> is \<open>Date.now()\<close> when the continuation runs.
\<close>

fun resume :: "task \<Rightarrow> nat \<Rightarrow> bool \<Rightarrow> int \<Rightarrow> watcher \<Rightarrow> watcher" where
  "resume (SaveImmediate started) i ok now w =
     (if ok then w\<lparr>lastSaveTime := started, running := (running w)[i := HashImmediate]\<rparr>
      else w\<lparr>running := remove_task i (running w)\<rparr>)"
| "resume HashImmediate i ok now w =
     w\<lparr>saveCount := Suc (saveCount w), pendingSave := False,
       running := remove_task i (running w)\<rparr>"
| "resume SaveDeferred i ok now w =
     (if ok then w\<lparr>lastSaveTime := now, running := (running w)[i := HashDeferred]\<rparr>
      else w\<lparr>pendingSave := False, running := remove_task i (running w)\<rparr>)"
| "resume HashDeferred i ok now w =
     w\<lparr>saveCount := Suc (saveCount w), pendingSave := False,
       running := remove_task i (running w)\<rparr>"

datatype event = Change int | Fire int | Settle nat bool int

fun time_of :: "event \<Rightarrow> int" where
  "time_of (Change t) = t"
| "time_of (Fire t) = t"
| "time_of (Settle i ok t) = t"

text \<open>One turn of the event loop; \<open>None\<close> when the event cannot happen in this state.\<close>

fun step :: "event \<Rightarrow> watcher \<Rightarrow> watcher option" where
  "step (Change t) w = Some (handleFileChange t w)"
| "step (Fire t) w =
     (case pendingSaveTimeout w of
        None \<Rightarrow> None
      | Some (Debounce due) \<Rightarrow> if due \<le> t then Some (debounce_callback t w) else None
      | Some (Deferred due) \<Rightarrow> if due \<le> t then Some (deferred_callback w) else None)"
| "step (Settle i ok t) w =
     (if i < length (running w) then Some (resume (running w ! i) i ok t w) else None)"

text \<open>A run of the event loop from clock value \<open>clock\<close>; time never goes back.\<close>

fun run :: "int \<Rightarrow> event list \<Rightarrow> watcher \<Rightarrow> watcher option" where
  "run clock [] w = Some w"
| "run clock (e # es) w =
     (if time_of e < clock then None
      else case step e w of None \<Rightarrow> None | Some w' \<Rightarrow> run (time_of e) es w')"

fun is_save :: "task \<Rightarrow> bool" where
  "is_save (SaveImmediate started) = True"
| "is_save SaveDeferred = True"
| "is_save HashImmediate = False"
| "is_save HashDeferred = False"

definition saves_in_flight :: "watcher \<Rightarrow> nat" where
  "saves_in_flight w = length (filter is_save (running w))"

section \<open>Strings, paths and the file system\<close>

text \<open>
  A JavaScript string is modelled as a \<open>string\<close>, one \<open>char\<close> per code unit (code units
  above 255 are outside the model). The program builds every path with \<open>path.join\<close> from
  the home directory and fixed names, which is concatenation with a separator.
\<close>

definition startsWith :: "string \<Rightarrow> string \<Rightarrow> bool" where
  "startsWith s p = (take (length p) s = p)"

definition str_includes :: "string \<Rightarrow> string \<Rightarrow> bool" where
  "str_includes s t = list_ex (\<lambda>i. take (length t) (drop i s) = t) [0..<Suc (length s)]"

definition path_join :: "string \<Rightarrow> string \<Rightarrow> string" where
  "path_join a b = a @ ''/'' @ b"

definition expandHome :: "string \<Rightarrow> string \<Rightarrow> string" where
  "expandHome home filepath =
     (if startsWith filepath ''~/'' then path_join home (drop 2 filepath) else filepath)"

definition basename :: "string \<Rightarrow> string" where
  "basename p = rev (takeWhile (\<lambda>c. c \<noteq> CHR ''/'') (rev p))"

definition dirname :: "string \<Rightarrow> string" where
  "dirname p = rev (drop 1 (dropWhile (\<lambda>c. c \<noteq> CHR ''/'') (rev p)))"

fun strip_prefix :: "string \<Rightarrow> string \<Rightarrow> string option" where
  "strip_prefix [] s = Some s"
| "strip_prefix (p # ps) [] = None"
| "strip_prefix (p # ps) (c # cs) = (if p = c then strip_prefix ps cs else None)"

text \<open>The directories above a path: \<open>a/b/c\<close> has \<open>a\<close> and \<open>a/b\<close>.\<close>

fun parent_dirs_from :: "string \<Rightarrow> string \<Rightarrow> string list" where
  "parent_dirs_from seen [] = []"
| "parent_dirs_from seen (c # cs) =
     (if c = CHR ''/'' then seen # parent_dirs_from (seen @ [c]) cs
      else parent_dirs_from (seen @ [c]) cs)"

definition parent_dirs :: "string \<Rightarrow> string list" where
  "parent_dirs p = filter (\<lambda>d. d \<noteq> []) (parent_dirs_from [] p)"

text \<open>\<open>Array.prototype.join\<close>.\<close>

fun join :: "string \<Rightarrow> string list \<Rightarrow> string" where
  "join sep [] = []"
| "join sep [x] = x"
| "join sep (x # y # ys) = x @ sep @ join sep (y # ys)"

text \<open>
  \<open>String.prototype.trim\<close> removes white space and line terminators from both ends:
  among the code units below 256 these are TAB, LF, VT, FF, CR, SP and NBSP.
\<close>

definition is_space :: "char \<Rightarrow> bool" where
  "is_space c = (of_char c \<in> {9, 10, 11, 12, 13, 32, 160 :: nat})"

definition trim :: "string \<Rightarrow> string" where
  "trim s = rev (dropWhile is_space (rev (dropWhile is_space s)))"

text \<open>
  What \<open>stat\<close> reports for a path: a regular file with its bytes, or a directory. The file
  system is an association list from paths to nodes, in the order the operating system
  enumerates them; a write replaces the binding of a path or adds one.
\<close>

datatype node = File string | Dir

type_synonym fs = "(string \<times> node) list"

definition stat :: "fs \<Rightarrow> string \<Rightarrow> node option" where
  "stat fs p = map_of fs p"

definition write_node :: "fs \<Rightarrow> string \<Rightarrow> node \<Rightarrow> fs" where
  "write_node fs p n = AList.update p n fs"

text \<open>
  \<open>readdir(dir, {recursive: true})\<close>: the paths below \<open>dir\<close>, relative to it, in
  enumeration order.
\<close>

definition readdir_recursive :: "fs \<Rightarrow> string \<Rightarrow> string list" where
  "readdir_recursive fs dir = List.map_filter (\<lambda>(p, n). strip_prefix (dir @ ''/'') p) fs"

record backup_path =
  source :: string
  dest :: string

definition BACKUP_PATHS :: "backup_path list" where
  "BACKUP_PATHS =
     [\<lparr>source = ''~/.claude'', dest = ''.claude''\<rparr>,
      \<lparr>source = ''~/.claude.json'', dest = ''.claude.json''\<rparr>,
      \<lparr>source = ''~/.claude.json.backup'', dest = ''.claude.json.backup''\<rparr>]"

datatype platform = Darwin | Other_platform

text \<open>
  The gist API's description of one file of the gist (\<open>gistData.files[name]\<close>).
\<close>

record file_data =
  content :: string
  truncated :: bool
  raw_url :: string

text \<open>
  An archive is the list of its entries: a name and a file's bytes or a directory.
\<close>

type_synonym archive = "(string \<times> node) list"

datatype cred_status = Unparseable | Incomplete | Complete

text \<open>
  The collaborators outside the program: the \<open>curl\<close> command, base64 of \<open>Buffer\<close>, the zip
  format written by \<open>archiver\<close> and read by \<open>unzip\<close> (\<open>None\<close> when \<open>unzip\<close> exits with
  an error), SHA-256, \<open>JSON.stringify(v, null, 2)\<close> on a keychain value (a JSON value is
  represented by its compact \<open>JSON.stringify\<close> text), the parse of a credentials file
  with the test for its token fields, the value \<open>setKeychainCredentials\<close> stores for the
  text of a credentials entry (\<open>None\<close> when it is not JSON or the \<open>security\<close> command
  fails), and whether \<open>gh gist edit\<close> reports a failed upload.
\<close>

record env =
  curl :: "string \<Rightarrow> string"
  base64_decode :: "string \<Rightarrow> string"
  base64_encode :: "string \<Rightarrow> string"
  zip_bytes :: "archive \<Rightarrow> string"
  unzip_bytes :: "string \<Rightarrow> archive option"
  sha256_hex :: "string \<Rightarrow> string"
  json_pretty :: "string \<Rightarrow> string"
  credentials_check :: "string \<Rightarrow> cred_status"
  keychain_value :: "string \<Rightarrow> string option"
  upload_fails :: bool

text \<open>
  The state the operations read and change: the platform, the home directory, the local
  file system, the keychain entry (read on macOS only), the files of the gist as the API
  describes them, and the files sent to the gist by \<open>gh gist edit --add\<close>.
\<close>

record world =
  platform :: platform
  homedir :: string
  files :: fs
  keychain :: "string option"
  remote_files :: "(string \<times> file_data) list"
  uploaded :: "(string \<times> string) list"

datatype error =
    InvalidProfileName
  | VerificationFailed "string list"
  | NoContent
  | ProfileNotFound
  | EmptyProfileData
  | ExtractionFailed
  | UploadFailed

definition PROFILE_NAME_char :: "char \<Rightarrow> bool" where
  "PROFILE_NAME_char c =
     ((CHR ''a'' \<le> c \<and> c \<le> CHR ''z'') \<or> (CHR ''0'' \<le> c \<and> c \<le> CHR ''9'') \<or> c = CHR ''-'')"

text \<open>\<open>PROFILE_NAME_REGEX.test(name)\<close> for \<open>/^[a-z0-9-]+$/\<close>.\<close>

definition validateProfileName :: "string \<Rightarrow> bool" where
  "validateProfileName name = (name \<noteq> [] \<and> list_all PROFILE_NAME_char name)"

text \<open>\<open>getKeychainCredentials\<close> is only called when the platform is macOS.\<close>

definition getKeychainCredentials :: "world \<Rightarrow> string option" where
  "getKeychainCredentials w = (if platform w = Darwin then keychain w else None)"

section \<open>Download of a stored profile\<close>

text \<open>
  \<open>restoreProfile\<close> and \<open>verifyProfile\<close> hold the same lines: the base64 text is fetched
  from \<open>raw_url\<close> when the API marks the file as truncated, and taken from the inline
  \<open>content\<close> otherwise; empty data is an error; the text is decoded into the zip buffer.
\<close>

definition read_base64Data :: "env \<Rightarrow> file_data \<Rightarrow> string" where
  "read_base64Data e fileData =
     (if truncated fileData then trim (curl e (raw_url fileData))
      else trim (content fileData))"

text \<open>
  The profile's file is looked up in the listing of the gist and in the API's answer;
  both lookups fail with a "not found" error when the gist has no such file.
\<close>

definition download_profile :: "env \<Rightarrow> world \<Rightarrow> string \<Rightarrow> error + string" where
  "download_profile e w profileName =
     (case map_of (remote_files w) (profileName @ ''.zip.base64'') of
        None \<Rightarrow> Inl ProfileNotFound
      | Some fileData \<Rightarrow>
          let base64Data = read_base64Data e fileData
          in if base64Data = [] then Inl EmptyProfileData
             else Inr (base64_decode e base64Data))"

section \<open>The archive codec\<close>

text \<open>
  \<open>archive.file(path, {name})\<close> adds one entry, with the bytes of the file at \<open>path\<close>;
  \<open>archive.directory(dirpath, destpath)\<close> adds every path below \<open>dirpath\<close> under
  \<open>destpath\<close>, keeping the relative structure.
\<close>

definition archive_file :: "string \<Rightarrow> string \<Rightarrow> archive" where
  "archive_file bytes name = [(name, File bytes)]"

definition archive_directory :: "fs \<Rightarrow> string \<Rightarrow> string \<Rightarrow> archive" where
  "archive_directory fs dirpath destpath =
     List.map_filter
       (\<lambda>(p, n). map_option (\<lambda>rel. (path_join destpath rel, n)) (strip_prefix (dirpath @ ''/'') p))
       fs"

text \<open>The body of the loop over \<open>BACKUP_PATHS\<close> in \<open>saveProfile\<close> and \<open>saveProfileSilent\<close>.\<close>

definition add_to_archive :: "world \<Rightarrow> backup_path \<Rightarrow> archive" where
  "add_to_archive w item =
     (let sourcePath = expandHome (homedir w) (source item) in
      case stat (files w) sourcePath of
        None \<Rightarrow> []
      | Some Dir \<Rightarrow> archive_directory (files w) sourcePath (dest item)
      | Some (File bytes) \<Rightarrow> archive_file bytes (dest item))"

definition keychain_entry :: "env \<Rightarrow> world \<Rightarrow> archive" where
  "keychain_entry e w =
     (if platform w = Darwin then
        (case getKeychainCredentials w of
           Some keychainCreds \<Rightarrow> [(''.macos.credentials.json'', File (json_pretty e keychainCreds))]
         | None \<Rightarrow> [])
      else [])"

definition build_archive :: "env \<Rightarrow> world \<Rightarrow> archive" where
  "build_archive e w = concat (map (add_to_archive w) BACKUP_PATHS) @ keychain_entry e w"

text \<open>\<open>hasFiles\<close> of \<open>saveProfile\<close>: set by every source that exists and by the keychain entry.\<close>

definition hasFiles :: "world \<Rightarrow> bool" where
  "hasFiles w =
     (list_ex (\<lambda>item. stat (files w) (expandHome (homedir w) (source item)) \<noteq> None) BACKUP_PATHS
      \<or> (platform w = Darwin \<and> getKeychainCredentials w \<noteq> None))"

text \<open>
  \<open>unzip -q -o zip -d dir\<close> into a directory that was just created: every entry is
  written under its name, relative to that directory, and the directories above it are
  created when they are missing.
\<close>

definition mkdir_if_absent :: "fs \<Rightarrow> string \<Rightarrow> fs" where
  "mkdir_if_absent fs d = (if stat fs d = None then write_node fs d Dir else fs)"

definition unzip_entry :: "fs \<Rightarrow> string \<times> node \<Rightarrow> fs" where
  "unzip_entry fs entry =
     write_node (foldl mkdir_if_absent fs (parent_dirs (fst entry))) (fst entry) (snd entry)"

definition unzip_entries :: "archive \<Rightarrow> fs" where
  "unzip_entries ar = foldl unzip_entry [] ar"

section \<open>Upload\<close>

text \<open>
  The archive is written as a zip, encoded in base64 and sent with \<open>gh gist edit --add\<close>
  under the name of the profile.
\<close>

definition upload_archive :: "env \<Rightarrow> string \<Rightarrow> archive \<Rightarrow> world \<Rightarrow> (error + unit) \<times> world" where
  "upload_archive e profileName ar w =
     (if upload_fails e then (Inl UploadFailed, w)
      else (Inr (),
            w\<lparr>uploaded := uploaded w @
                 [(profileName @ ''.zip.base64'', base64_encode e (zip_bytes e ar))]\<rparr>))"

section \<open>The verification gates\<close>

record verification =
  valid :: bool
  issues :: "string list"

record check =
  path :: string
  essential :: bool
  description :: string
  skipIfKeychainExists :: bool
  isDirectory :: bool

definition local_checks :: "world \<Rightarrow> check list" where
  "local_checks w =
     (let isMacOS = (platform w = Darwin) in
      [\<lparr>path = expandHome (homedir w) ''~/.claude/.credentials.json'',
        essential = (\<not> isMacOS),
        description = ''Claude credentials (file)'',
        skipIfKeychainExists = isMacOS,
        isDirectory = False\<rparr>,
       \<lparr>path = expandHome (homedir w) ''~/.claude.json'',
        essential = True,
        description = ''Claude configuration'',
        skipIfKeychainExists = False,
        isDirectory = False\<rparr>,
       \<lparr>path = expandHome (homedir w) ''~/.claude.json.backup'',
        essential = False,
        description = ''Configuration backup'',
        skipIfKeychainExists = False,
        isDirectory = False\<rparr>])"

definition add_issue :: "string \<Rightarrow> verification \<Rightarrow> verification" where
  "add_issue msg v = v\<lparr>issues := issues v @ [msg]\<rparr>"

definition verify_local_check :: "env \<Rightarrow> world \<Rightarrow> bool \<Rightarrow> verification \<Rightarrow> check \<Rightarrow> verification" where
  "verify_local_check e w hasKeychainCreds v c =
     (if skipIfKeychainExists c \<and> hasKeychainCreds then v
      else case stat (files w) (path c) of
          Some (File text) \<Rightarrow>
            if str_includes (path c) ''.credentials.json'' then
              (case credentials_check e text of
                 Unparseable \<Rightarrow> add_issue ''Credentials file could not be parsed'' v
               | Incomplete \<Rightarrow> add_issue ''Credentials file exists but may be incomplete'' v
               | Complete \<Rightarrow> v)
            else v
        | Some Dir \<Rightarrow> v
        | None \<Rightarrow>
            if essential c
            then add_issue (''Missing required file: '' @ description c) (v\<lparr>valid := False\<rparr>)
            else v)"

definition verifyLocalFiles :: "env \<Rightarrow> world \<Rightarrow> verification" where
  "verifyLocalFiles e w =
     (let hasKeychainCreds = (platform w = Darwin \<and> getKeychainCredentials w \<noteq> None) in
      foldl (verify_local_check e w hasKeychainCreds) \<lparr>valid = True, issues = []\<rparr>
        (local_checks w))"

text \<open>
  \<open>verifyDownloadedProfile\<close>: the zip is extracted into a fresh directory and three
  entries are looked up in it; the paths of the checks are relative to that directory.
\<close>

definition downloaded_checks :: "platform \<Rightarrow> check list" where
  "downloaded_checks pf =
     [\<lparr>path = ''.claude/.credentials.json'',
       essential = (pf \<noteq> Darwin),
       description = ''Claude credentials (file)'',
       skipIfKeychainExists = False,
       isDirectory = False\<rparr>,
      \<lparr>path = ''.macos.credentials.json'',
       essential = (pf = Darwin),
       description = ''Claude credentials (macOS)'',
       skipIfKeychainExists = False,
       isDirectory = False\<rparr>,
      \<lparr>path = ''.claude.json'',
       essential = True,
       description = ''Claude configuration'',
       skipIfKeychainExists = False,
       isDirectory = False\<rparr>]"

definition verify_downloaded_check :: "fs \<Rightarrow> verification \<Rightarrow> check \<Rightarrow> verification" where
  "verify_downloaded_check extracted v c =
     (case stat extracted (path c) of
        Some (File bytes) \<Rightarrow> v
      | Some Dir \<Rightarrow>
          if essential c then add_issue (''Missing: '' @ description c) (v\<lparr>valid := False\<rparr>) else v
      | None \<Rightarrow>
          if essential c then add_issue (''Missing: '' @ description c) (v\<lparr>valid := False\<rparr>) else v)"

definition verify_extracted :: "platform \<Rightarrow> fs \<Rightarrow> verification" where
  "verify_extracted pf extracted =
     foldl (verify_downloaded_check extracted) \<lparr>valid = True, issues = []\<rparr> (downloaded_checks pf)"

definition verifyDownloadedProfile :: "env \<Rightarrow> platform \<Rightarrow> string \<Rightarrow> verification" where
  "verifyDownloadedProfile e pf zipBuffer =
     (case unzip_bytes e zipBuffer of
        None \<Rightarrow> \<lparr>valid = False, issues = [''Failed to extract profile archive'']\<rparr>
      | Some ar \<Rightarrow> verify_extracted pf (unzip_entries ar))"

text \<open>
  The checks of the \<open>--verify\<close> command (\<open>verifyProfile\<close>). A check that finds its
  entry only reports on it, unless the entry of a file check is not a regular file; an
  essential entry that is missing or is not a regular file clears \<open>hasEssentialFiles\<close>.
\<close>

definition profile_checks :: "check list" where
  "profile_checks =
     [\<lparr>path = ''.claude/.credentials.json'',
       essential = True,
       description = ''Claude credentials'',
       skipIfKeychainExists = False,
       isDirectory = False\<rparr>,
      \<lparr>path = ''.claude.json'',
       essential = True,
       description = ''Claude configuration'',
       skipIfKeychainExists = False,
       isDirectory = False\<rparr>,
      \<lparr>path = ''.claude.json.backup'',
       essential = False,
       description = ''Configuration backup'',
       skipIfKeychainExists = False,
       isDirectory = False\<rparr>,
      \<lparr>path = ''.claude'',
       essential = False,
       description = ''Claude directory'',
       skipIfKeychainExists = False,
       isDirectory = True\<rparr>]"

definition verify_profile_check :: "fs \<Rightarrow> bool \<Rightarrow> check \<Rightarrow> bool" where
  "verify_profile_check extracted hasEssentialFiles c =
     (case stat extracted (path c) of
        Some n \<Rightarrow>
          if isDirectory c then hasEssentialFiles
          else (case n of
                  File bytes \<Rightarrow> hasEssentialFiles
                | Dir \<Rightarrow> if essential c then False else hasEssentialFiles)
      | None \<Rightarrow> if essential c then False else hasEssentialFiles)"

definition verifyProfile :: "env \<Rightarrow> world \<Rightarrow> string \<Rightarrow> error + bool" where
  "verifyProfile e w profileName =
     (if \<not> validateProfileName profileName then Inl InvalidProfileName
      else case download_profile e w profileName of
          Inl err \<Rightarrow> Inl err
        | Inr zipBuffer \<Rightarrow>
            (case unzip_bytes e zipBuffer of
               None \<Rightarrow> Inl ExtractionFailed
             | Some ar \<Rightarrow> Inr (foldl (verify_profile_check (unzip_entries ar)) True profile_checks)))"

section \<open>Store\<close>

text \<open>
  \<open>saveProfile\<close>: the name is validated, the local files are verified, the archive is
  built, and \<open>process.exit(1)\<close> ends the command when the verification fails or nothing
  was added; then the archive is uploaded.
\<close>

definition saveProfile :: "env \<Rightarrow> string \<Rightarrow> world \<Rightarrow> (error + unit) \<times> world" where
  "saveProfile e profileName w =
     (if \<not> validateProfileName profileName then (Inl InvalidProfileName, w)
      else
        let verification = verifyLocalFiles e w in
        if \<not> valid verification then (Inl (VerificationFailed (issues verification)), w)
        else if \<not> hasFiles w then (Inl NoContent, w)
        else upload_archive e profileName (build_archive e w) w)"

text \<open>
  \<open>saveProfileSilent\<close>, the save of watch mode: the archive is built from whatever
  exists and is uploaded.
\<close>

definition saveProfileSilent :: "env \<Rightarrow> string \<Rightarrow> world \<Rightarrow> (error + unit) \<times> world" where
  "saveProfileSilent e profileName w = upload_archive e profileName (build_archive e w) w"

section \<open>Restore\<close>

text \<open>
  The extracted archive lives in a temporary directory; it is a file system of its own,
  with paths relative to \<open>extractDir\<close>. \<open>mkdir(p, {recursive: true})\<close> creates the
  directories of a path that are missing and fails when one of them is a file.
\<close>

fun mkdir_all :: "fs \<Rightarrow> string list \<Rightarrow> bool \<times> fs" where
  "mkdir_all fs [] = (True, fs)"
| "mkdir_all fs (d # ds) =
     (case stat fs d of
        Some (File bytes) \<Rightarrow> (False, fs)
      | Some Dir \<Rightarrow> mkdir_all fs ds
      | None \<Rightarrow> mkdir_all (write_node fs d Dir) ds)"

definition mkdir_recursive :: "fs \<Rightarrow> string \<Rightarrow> bool \<times> fs" where
  "mkdir_recursive fs p = mkdir_all fs (parent_dirs p @ [p])"

text \<open>\<open>fsPromises.copyFile\<close>: fails when the destination is a directory.\<close>

definition copyFile :: "string \<Rightarrow> fs \<Rightarrow> string \<Rightarrow> fs" where
  "copyFile bytes fs destPath =
     (case stat fs destPath of
        Some Dir \<Rightarrow> fs
      | _ \<Rightarrow> write_node fs destPath (File bytes))"

text \<open>
  \<open>cp -r src dst\<close> for a directory \<open>src\<close>. When \<open>dst\<close> is an existing directory the
  copy is made inside it, under the last component of \<open>src\<close>; when \<open>dst\<close> does not exist
  it becomes the copy; when \<open>dst\<close> is a file the command fails. Below the target every
  path of the source is copied where its parent is a directory: a directory is created
  unless the path exists, a file is written unless the path is a directory.
\<close>

definition copy_node :: "fs \<Rightarrow> string \<Rightarrow> string \<Rightarrow> fs \<Rightarrow> string \<Rightarrow> fs" where
  "copy_node extracted src target fs rel =
     (let to = path_join target rel in
      if stat fs (dirname to) \<noteq> Some Dir then fs
      else case stat extracted (path_join src rel) of
          None \<Rightarrow> fs
        | Some Dir \<Rightarrow> mkdir_if_absent fs to
        | Some (File bytes) \<Rightarrow> copyFile bytes fs to)"

definition copy_tree :: "fs \<Rightarrow> string \<Rightarrow> fs \<Rightarrow> string \<Rightarrow> fs" where
  "copy_tree extracted src fs target =
     (case stat fs target of
        Some (File bytes) \<Rightarrow> fs
      | _ \<Rightarrow> foldl (copy_node extracted src target) (mkdir_if_absent fs target)
               (sort (readdir_recursive extracted src)))"

definition cp_r :: "fs \<Rightarrow> string \<Rightarrow> fs \<Rightarrow> string \<Rightarrow> fs" where
  "cp_r extracted src fs dst =
     (case stat fs dst of
        Some (File bytes) \<Rightarrow> fs
      | Some Dir \<Rightarrow> copy_tree extracted src fs (path_join dst (basename src))
      | None \<Rightarrow> copy_tree extracted src fs dst)"

text \<open>The body of the loop over \<open>BACKUP_PATHS\<close> in \<open>restoreProfile\<close>.\<close>

definition restore_item :: "fs \<Rightarrow> string \<Rightarrow> fs \<Rightarrow> backup_path \<Rightarrow> fs" where
  "restore_item extracted home fs item =
     (let sourcePath = dest item;
          destPath = expandHome home (source item)
      in case stat extracted sourcePath of
           None \<Rightarrow> fs
         | Some Dir \<Rightarrow>
             (case mkdir_recursive fs (dirname destPath) of
                (True, fs') \<Rightarrow> cp_r extracted sourcePath fs' destPath
              | (False, fs') \<Rightarrow> fs')
         | Some (File bytes) \<Rightarrow>
             (case mkdir_recursive fs (dirname destPath) of
                (True, fs') \<Rightarrow> copyFile bytes fs' destPath
              | (False, fs') \<Rightarrow> fs'))"

definition restore_files :: "fs \<Rightarrow> string \<Rightarrow> fs \<Rightarrow> fs" where
  "restore_files extracted home fs = foldl (restore_item extracted home) fs BACKUP_PATHS"

text \<open>The keychain step of \<open>restoreProfile\<close>, on macOS.\<close>

definition restore_keychain :: "env \<Rightarrow> fs \<Rightarrow> world \<Rightarrow> world" where
  "restore_keychain e extracted w =
     (if platform w = Darwin then
        (case stat extracted ''.macos.credentials.json'' of
           Some (File text) \<Rightarrow>
             (case keychain_value e text of
                Some v \<Rightarrow> w\<lparr>keychain := Some v\<rparr>
              | None \<Rightarrow> w)
         | _ \<Rightarrow> w)
      else w)"

definition restoreProfile :: "env \<Rightarrow> string \<Rightarrow> world \<Rightarrow> (error + unit) \<times> world" where
  "restoreProfile e profileName w =
     (if \<not> validateProfileName profileName then (Inl InvalidProfileName, w)
      else case download_profile e w profileName of
          Inl err \<Rightarrow> (Inl err, w)
        | Inr zipBuffer \<Rightarrow>
            let verification = verifyDownloadedProfile e (platform w) zipBuffer in
            if \<not> valid verification then (Inl (VerificationFailed (issues verification)), w)
            else
              let extracted = (case unzip_bytes e zipBuffer of Some ar \<Rightarrow> unzip_entries ar | None \<Rightarrow> [])
              in (Inr (),
                  restore_keychain e extracted
                    (w\<lparr>files := restore_files extracted (homedir w) (files w)\<rparr>)))"

section \<open>The fingerprint\<close>

text \<open>
  \<open>calculateFilesHash\<close> feeds a SHA-256 hash with a sequence of \<open>update\<close> calls; the digest
  is the hash of the concatenation. \<open>files.sort()\<close> sorts the listing in place, so the
  loop over the files runs in sorted order too. A path that is not a regular file, or
  that has disappeared, adds nothing.
\<close>

definition hash_file :: "fs \<Rightarrow> string \<Rightarrow> string list" where
  "hash_file fs filePath = (case stat fs filePath of Some (File bytes) \<Rightarrow> [bytes] | _ \<Rightarrow> [])"

definition hash_directory :: "fs \<Rightarrow> string \<Rightarrow> string list" where
  "hash_directory fs sourcePath =
     (let sorted_files = sort (readdir_recursive fs sourcePath) in
      join ''|'' sorted_files #
      concat (map (\<lambda>file. hash_file fs (path_join sourcePath file)) sorted_files))"

definition hash_item :: "world \<Rightarrow> backup_path \<Rightarrow> string list" where
  "hash_item w item =
     (let sourcePath = expandHome (homedir w) (source item) in
      case stat (files w) sourcePath of
        None \<Rightarrow> []
      | Some Dir \<Rightarrow> hash_directory (files w) sourcePath
      | Some (File bytes) \<Rightarrow> [bytes])"

definition hash_updates :: "world \<Rightarrow> string list" where
  "hash_updates w =
     concat (map (hash_item w) BACKUP_PATHS) @
     (if platform w = Darwin then
        (case getKeychainCredentials w of Some keychainCreds \<Rightarrow> [keychainCreds] | None \<Rightarrow> [])
      else [])"

definition calculateFilesHash :: "env \<Rightarrow> world \<Rightarrow> string" where
  "calculateFilesHash e w = sha256_hex e (concat (hash_updates w))"

section \<open>Example inputs\<close>

text \<open>
  A profile archive made on macOS: the credentials are the keychain entry, and the
  directory has no credentials file.
\<close>

definition macos_archive :: archive where
  "macos_archive =
     [(''.claude/settings.json'', File ''{}''),
      (''.claude.json'', File ''[3]''),
      (''.macos.credentials.json'', File ''[1, 2]'')]"

text \<open>
  Collaborators for the examples: the raw URL of the profile \<open>work\<close> serves the text
  \<open>bWFj\<close> followed by a newline, base64 is left as the identity, and the zip buffer
  \<open>bWFj\<close> holds \<open>macos_archive\<close>; any other buffer is not a zip archive.
\<close>

definition example_env :: env where
  "example_env =
     \<lparr>curl = (\<lambda>url. if url = ''https://gist.githubusercontent.com/u/1/raw/work.zip.base64''
                    then ''bWFj\<newline>'' else []),
      base64_decode = (\<lambda>s. s),
      base64_encode = (\<lambda>s. s),
      zip_bytes = (\<lambda>ar. ''PK'' @ concat (map fst ar)),
      unzip_bytes = (\<lambda>b. if b = ''bWFj'' then Some macos_archive else None),
      sha256_hex = (\<lambda>s. s),
      json_pretty = (\<lambda>s. s),
      credentials_check = (\<lambda>s. Complete),
      keychain_value = (\<lambda>s. Some s),
      upload_fails = False\<rparr>"

text \<open>
  A Linux machine on which the three backup paths do not exist (any more); the gist holds
  the profiles \<open>work\<close> (large, truncated by the API), \<open>mac\<close> and \<open>broken\<close>.
\<close>

definition example_remote :: "(string \<times> file_data) list" where
  "example_remote =
     [(''work.zip.base64'',
       \<lparr>content = ''bW'', truncated = True,
        raw_url = ''https://gist.githubusercontent.com/u/1/raw/work.zip.base64''\<rparr>),
      (''mac.zip.base64'',
       \<lparr>content = ''bWFj'', truncated = False,
        raw_url = ''https://gist.githubusercontent.com/u/1/raw/mac.zip.base64''\<rparr>),
      (''broken.zip.base64'',
       \<lparr>content = ''eHh4'', truncated = False,
        raw_url = ''https://gist.githubusercontent.com/u/1/raw/broken.zip.base64''\<rparr>)]"

definition empty_linux_home :: world where
  "empty_linux_home =
     \<lparr>platform = Other_platform, homedir = ''/home/user'',
      files = [(''/home'', Dir), (''/home/user'', Dir)],
      keychain = None, remote_files = example_remote, uploaded = []\<rparr>"

definition macos_home :: world where
  "macos_home =
     \<lparr>platform = Darwin, homedir = ''/Users/user'',
      files = [(''/Users'', Dir), (''/Users/user'', Dir),
               (''/Users/user/.claude.json'', File ''[3]'')],
      keychain = Some ''[1, 2]'',
      remote_files = example_remote, uploaded = []\<rparr>"

text \<open>
  A Linux machine in use, restored once before (which left \<open>~/.claude/.claude\<close> behind),
  and the stored profile \<open>linux\<close> with its archive.
\<close>

definition linux_archive :: archive where
  "linux_archive =
     [(''.claude/settings.json'', File ''stored-settings''),
      (''.claude/.credentials.json'', File ''stored-token''),
      (''.claude.json'', File ''stored-config'')]"

definition linux_env :: env where
  "linux_env = example_env\<lparr>unzip_bytes := (\<lambda>b. if b = ''bGludXg='' then Some linux_archive else None)\<rparr>"

definition linux_home :: world where
  "linux_home =
     \<lparr>platform = Other_platform, homedir = ''/home/user'',
      files = [(''/home'', Dir), (''/home/user'', Dir),
               (''/home/user/.claude'', Dir),
               (''/home/user/.claude/settings.json'', File ''local-settings''),
               (''/home/user/.claude/.credentials.json'', File ''local-token''),
               (''/home/user/.claude/.claude'', Dir),
               (''/home/user/.claude/.claude/settings.json'', File ''first-restore''),
               (''/home/user/.claude.json'', File ''local-config'')],
      keychain = None,
      remote_files =
        [(''linux.zip.base64'',
          \<lparr>content = ''bGludXg='', truncated = False,
           raw_url = ''https://gist.githubusercontent.com/u/1/raw/linux.zip.base64''\<rparr>)],
      uploaded = []\<rparr>"

subsection \<open>Properties of the scheduler\<close>

lemmas watcher_defs =
  initial_watcher_def handleFileChange_def debounce_callback_def deferred_callback_def
  remove_task_def minSaveInterval_def debounceDelay_def saves_in_flight_def

text \<open>
  C1 (single flight). The claim: no two executions of \<open>saveProfileSilent\<close> are ever in
  flight together. The code has no guard: a change arriving while a save is being
  awaited arms a new debounce timer, and when that timer fires \<open>lastSaveTime\<close> is still
  the old value, so the immediate branch starts a second save. Here the first save
  starts at 1700000002000 and has not settled when the second starts 2.5 seconds later.
\<close>

theorem two_saves_in_flight:
  "map_option saves_in_flight
     (run 0 [Change 1700000000000, Fire 1700000002000,
             Change 1700000002500, Fire 1700000004500] initial_watcher) = Some 2"
  by (simp add: watcher_defs Let_def)

text \<open>
  C2 (throttle floor and baseline). The claim: the baseline recorded after a successful
  save is the completion time, and no save begins less than 30 s after a completed one.
  In the immediate branch the code assigns \<open>lastSaveTime = now\<close>, the value of
  \<open>Date.now()\<close> taken before the save was started (the deferred branch reads
  \<open>Date.now()\<close> again after the await). Here a save starts at 1700000002000 and
  completes at 1700000009000; the baseline recorded is 1700000002000, and the next
  save starts at 1700000032500, 23.5 s after the completion.
\<close>

theorem baseline_is_start_time:
  "run 0 [Change 1700000000000, Fire 1700000002000,
          Settle 0 True 1700000009000, Settle 0 True 1700000009100,
          Change 1700000030500, Fire 1700000032500] initial_watcher =
   Some \<lparr>lastSaveTime = 1700000002000, pendingSave = False, changeDetected = False,
         pendingSaveTimeout = None, saveCount = 1,
         running = [SaveImmediate 1700000032500]\<rparr>"
  by (simp add: watcher_defs Let_def)

text \<open>
  The last part of C2 (the latest change is saved after the wait) fails as well: a
  change that arrives while the deferred timer is pending clears that timer, and the
  debounce callback that follows finds \<open>pendingSave\<close> still set and schedules nothing.
  The run below ends with no timer and no task, with the change of 1700000020000 unsaved.
\<close>

lemma change_during_wait_is_dropped:
  "run 0 [Change 1700000000000, Fire 1700000002000,
          Settle 0 True 1700000003000, Settle 0 True 1700000003100,
          Change 1700000010000, Fire 1700000012000,
          Change 1700000020000, Fire 1700000022000] initial_watcher =
   Some \<lparr>lastSaveTime = 1700000002000, pendingSave = True, changeDetected = False,
         pendingSaveTimeout = None, saveCount = 1, running = []\<rparr>"
  by (simp add: watcher_defs Let_def)

text \<open>
  C3 (failed save). The claim: a failed save leaves both \<open>pendingSave\<close> and
  \<open>lastSaveTime\<close> as they were, on the immediate and on the deferred path. The catch
  block of the deferred path assigns \<open>pendingSave = false\<close>: below, the deferred save
  started at 1700000032000 fails at 1700000033000 and the flag, set before, is cleared.
\<close>

theorem deferred_failure_clears_pending:
  "map_option pendingSave
     (run 0 [Change 1700000000000, Fire 1700000002000,
             Settle 0 True 1700000003000, Settle 0 True 1700000003100,
             Change 1700000010000, Fire 1700000012000,
             Fire 1700000032000] initial_watcher) = Some True \<and>
   map_option running
     (run 0 [Change 1700000000000, Fire 1700000002000,
             Settle 0 True 1700000003000, Settle 0 True 1700000003100,
             Change 1700000010000, Fire 1700000012000,
             Fire 1700000032000] initial_watcher) = Some [SaveDeferred] \<and>
   map_option pendingSave
     (run 0 [Change 1700000000000, Fire 1700000002000,
             Settle 0 True 1700000003000, Settle 0 True 1700000003100,
             Change 1700000010000, Fire 1700000012000,
             Fire 1700000032000, Settle 0 False 1700000033000] initial_watcher) = Some False"
  by (simp add: watcher_defs Let_def)

text \<open>
  C3 as the code has it: when the awaited \<open>saveProfileSilent\<close> of task \<open>i\<close> rejects, the
  throttle baseline and the save counter keep their values on both paths; the pending
  flag keeps its value on the immediate path and is cleared on the deferred path.
\<close>

theorem failed_save_keeps_baseline:
  assumes "i < length (running w)" and "is_save (running w ! i)"
  shows "map_option lastSaveTime (step (Settle i False now) w) = Some (lastSaveTime w) \<and>
         map_option saveCount (step (Settle i False now) w) = Some (saveCount w) \<and>
         map_option pendingSave (step (Settle i False now) w) =
           Some (pendingSave w \<and> running w ! i \<noteq> SaveDeferred)"
  using assms by (cases "running w ! i") simp_all

theorem failed_save_keeps_baseline_witness:
  "map_option lastSaveTime
     (step (Settle 0 False 1700000033000)
        \<lparr>lastSaveTime = 1700000002000, pendingSave = True, changeDetected = False,
         pendingSaveTimeout = None, saveCount = 1, running = [SaveDeferred]\<rparr>) =
   Some 1700000002000 \<and>
   map_option pendingSave
     (step (Settle 0 False 1700000033000)
        \<lparr>lastSaveTime = 1700000002000, pendingSave = True, changeDetected = False,
         pendingSaveTimeout = None, saveCount = 1, running = [SaveDeferred]\<rparr>) =
   Some False"
  using failed_save_keeps_baseline [of 0
      "\<lparr>lastSaveTime = 1700000002000, pendingSave = True, changeDetected = False,
        pendingSaveTimeout = None, saveCount = 1, running = [SaveDeferred]\<rparr>"
      1700000033000]
  by simp

subsection \<open>Properties of download, store and the verification gates\<close>

lemmas example_defs =
  example_env_def example_remote_def empty_linux_home_def macos_home_def macos_archive_def

lemmas path_defs = expandHome_def startsWith_def path_join_def stat_def

text \<open>
  C4 (truncated download). For a profile the gist holds, the data decoded into the zip
  buffer is the trimmed text fetched from \<open>raw_url\<close> when the API's answer has
  \<open>truncated = true\<close>, and the trimmed inline \<open>content\<close> when it has not; empty data is
  an error. \<open>restoreProfile\<close> and \<open>verifyProfile\<close> both download this way.
\<close>

theorem truncated_download_uses_raw_url:
  assumes "map_of (remote_files w) (profileName @ ''.zip.base64'') = Some fileData"
  shows "(truncated fileData \<longrightarrow>
            download_profile e w profileName =
              (if trim (curl e (raw_url fileData)) = [] then Inl EmptyProfileData
               else Inr (base64_decode e (trim (curl e (raw_url fileData)))))) \<and>
         (\<not> truncated fileData \<longrightarrow>
            download_profile e w profileName =
              (if trim (content fileData) = [] then Inl EmptyProfileData
               else Inr (base64_decode e (trim (content fileData)))))"
  using assms by (simp add: download_profile_def read_base64Data_def Let_def)

theorem truncated_download_uses_raw_url_witness:
  "download_profile example_env empty_linux_home ''work'' = Inr ''bWFj'' \<and>
   download_profile example_env empty_linux_home ''broken'' = Inr ''eHh4''"
  using
    truncated_download_uses_raw_url [of empty_linux_home "''work''"
      "\<lparr>content = ''bW'', truncated = True,
        raw_url = ''https://gist.githubusercontent.com/u/1/raw/work.zip.base64''\<rparr>" example_env]
    truncated_download_uses_raw_url [of empty_linux_home "''broken''"
      "\<lparr>content = ''eHh4'', truncated = False,
        raw_url = ''https://gist.githubusercontent.com/u/1/raw/broken.zip.base64''\<rparr>" example_env]
  by (simp add: example_defs trim_def is_space_def)

text \<open>
  The inline content of a truncated file has no influence on the download, and the raw
  URL of a file that is not truncated is not fetched.
\<close>

lemma truncated_content_is_ignored:
  "truncated fileData \<Longrightarrow>
   read_base64Data e (fileData\<lparr>content := other\<rparr>) = read_base64Data e fileData"
  by (simp add: read_base64Data_def)

lemma inline_content_needs_no_fetch:
  "\<not> truncated fileData \<Longrightarrow>
   read_base64Data (e\<lparr>curl := other\<rparr>) fileData = read_base64Data e fileData"
  by (simp add: read_base64Data_def)

text \<open>
  C6 (no empty profile). The claim: a store with nothing to archive fails and uploads
  nothing, also in watch mode. \<open>saveProfile\<close> has the \<open>hasFiles\<close> test;
  \<open>saveProfileSilent\<close> has none: on a machine where the three paths are gone it uploads
  an archive with no entries under the profile's name.
\<close>

theorem silent_save_uploads_empty_archive:
  "build_archive example_env empty_linux_home = [] \<and>
   saveProfileSilent example_env ''work'' empty_linux_home =
     (Inr (), empty_linux_home\<lparr>uploaded := [(''work.zip.base64'', ''PK'')]\<rparr>)"
  by (simp add: example_defs saveProfileSilent_def upload_archive_def build_archive_def
      add_to_archive_def keychain_entry_def BACKUP_PATHS_def path_defs)

lemma saveProfile_refuses_empty_home:
  "saveProfile example_env ''work'' empty_linux_home =
     (Inl (VerificationFailed
            [''Missing required file: Claude credentials (file)'',
             ''Missing required file: Claude configuration'']),
      empty_linux_home)"
  by (simp add: example_defs saveProfile_def verifyLocalFiles_def local_checks_def
      verify_local_check_def add_issue_def getKeychainCredentials_def validateProfileName_def
      PROFILE_NAME_char_def path_defs Let_def)

lemma saveProfile_NoContent:
  "validateProfileName profileName \<Longrightarrow> valid (verifyLocalFiles e w) \<Longrightarrow> \<not> hasFiles w \<Longrightarrow>
   saveProfile e profileName w = (Inl NoContent, w)"
  by (simp add: saveProfile_def Let_def)

text \<open>
  The gate before a restore: the result is valid exactly when every essential entry of
  the platform is a regular file of the extracted tree, whatever else the tree holds, and
  an essential entry that is not is named in the issues.
\<close>

lemma verify_downloaded_check_valid:
  "valid (verify_downloaded_check t v c) \<longleftrightarrow>
     valid v \<and> (essential c \<longrightarrow> (\<exists>b. stat t (path c) = Some (File b)))"
  by (simp add: verify_downloaded_check_def add_issue_def split: option.splits node.splits)

lemma foldl_verify_downloaded_valid:
  "valid (foldl (verify_downloaded_check t) v cs) \<longleftrightarrow>
     valid v \<and> (\<forall>c \<in> set cs. essential c \<longrightarrow> (\<exists>b. stat t (path c) = Some (File b)))"
  by (induction cs arbitrary: v) (auto simp: verify_downloaded_check_valid)

lemma verify_downloaded_check_issues:
  "set (issues (verify_downloaded_check t v c)) =
     set (issues v) \<union>
     (if essential c \<and> (\<forall>b. stat t (path c) \<noteq> Some (File b))
      then {''Missing: '' @ description c} else {})"
  by (simp add: verify_downloaded_check_def add_issue_def split: option.splits node.splits)

lemma foldl_verify_downloaded_issues:
  "set (issues (foldl (verify_downloaded_check t) v cs)) =
     set (issues v) \<union>
     {''Missing: '' @ description c |c.
        c \<in> set cs \<and> essential c \<and> (\<forall>b. stat t (path c) \<noteq> Some (File b))}"
proof (induction cs arbitrary: v)
  case Nil
  then show ?case by simp
next
  case (Cons c cs)
  show ?case
    unfolding foldl_Cons Cons.IH verify_downloaded_check_issues by auto
qed

lemma verify_extracted_valid_iff:
  "valid (verify_extracted pf extracted) \<longleftrightarrow>
     (\<forall>c \<in> set (downloaded_checks pf).
        essential c \<longrightarrow> (\<exists>b. stat extracted (path c) = Some (File b)))"
  by (simp add: verify_extracted_def foldl_verify_downloaded_valid)

lemma verify_extracted_names_missing_entry:
  assumes "c \<in> set (downloaded_checks pf)" and "essential c"
    and "\<forall>b. stat extracted (path c) \<noteq> Some (File b)"
  shows "\<not> valid (verify_extracted pf extracted) \<and>
         (''Missing: '' @ description c) \<in> set (issues (verify_extracted pf extracted))"
  using assms
  by (auto simp: verify_extracted_def foldl_verify_downloaded_valid foldl_verify_downloaded_issues)

text \<open>
  C7 (verification of an extracted profile). The claim: the gate before a restore and
  the \<open>--verify\<close> command apply the same platform-conditional essentials.
  \<open>verifyDownloadedProfile\<close> does; the checks of \<open>verifyProfile\<close> are fixed, with the
  credentials file essential on every platform and no check of the keychain entry. On
  macOS the profile \<open>mac\<close>, which holds the keychain entry and the configuration file,
  passes the gate of restore and is reported as missing essential files by \<open>--verify\<close>.
\<close>

theorem verify_command_ignores_platform:
  "download_profile example_env macos_home ''mac'' = Inr ''bWFj'' \<and>
   verifyDownloadedProfile example_env (platform macos_home) ''bWFj'' =
     \<lparr>valid = True, issues = []\<rparr> \<and>
   verifyProfile example_env macos_home ''mac'' = Inr False"
  by (simp add: example_defs verifyProfile_def verifyDownloadedProfile_def verify_extracted_def
      download_profile_def read_base64Data_def trim_def is_space_def
      validateProfileName_def PROFILE_NAME_char_def
      unzip_entries_def unzip_entry_def parent_dirs_def mkdir_if_absent_def write_node_def
      stat_def downloaded_checks_def verify_downloaded_check_def profile_checks_def
      verify_profile_check_def add_issue_def Let_def)

text \<open>
  Both commands return the world they were given whenever they end in an error: nothing
  is uploaded and no local path is written.
\<close>

lemma saveProfile_error_keeps_world:
  "fst (saveProfile e profileName w) = Inl err \<Longrightarrow> snd (saveProfile e profileName w) = w"
  by (auto simp: saveProfile_def upload_archive_def Let_def split: if_splits)

lemma restoreProfile_error_keeps_world:
  "fst (restoreProfile e profileName w) = Inl err \<Longrightarrow> snd (restoreProfile e profileName w) = w"
  by (auto simp: restoreProfile_def Let_def split: if_splits sum.splits)

text \<open>
  C8 (a failed gate blocks the destructive step). A store whose verification of the
  local files fails ends with the issue list and the world as it was (no upload); a
  restore whose downloaded archive fails the verification, or cannot be extracted, ends
  with the issue list and the world as it was (no local path written, the keychain
  untouched).
\<close>

theorem failed_gate_blocks:
  assumes "validateProfileName profileName"
  shows "(\<not> valid (verifyLocalFiles e w) \<longrightarrow>
            saveProfile e profileName w =
              (Inl (VerificationFailed (issues (verifyLocalFiles e w))), w)) \<and>
         (download_profile e w profileName = Inr zipBuffer \<and>
          \<not> valid (verifyDownloadedProfile e (platform w) zipBuffer) \<longrightarrow>
            restoreProfile e profileName w =
              (Inl (VerificationFailed (issues (verifyDownloadedProfile e (platform w) zipBuffer))), w)) \<and>
         (download_profile e w profileName = Inr zipBuffer \<and> unzip_bytes e zipBuffer = None \<longrightarrow>
            restoreProfile e profileName w =
              (Inl (VerificationFailed [''Failed to extract profile archive'']), w))"
  using assms
  by (simp add: saveProfile_def restoreProfile_def verifyDownloadedProfile_def Let_def)

theorem failed_gate_blocks_witness:
  "saveProfile example_env ''mac'' empty_linux_home =
     (Inl (VerificationFailed
            [''Missing required file: Claude credentials (file)'',
             ''Missing required file: Claude configuration'']),
      empty_linux_home) \<and>
   restoreProfile example_env ''mac'' empty_linux_home =
     (Inl (VerificationFailed [''Missing: Claude credentials (file)'']), empty_linux_home) \<and>
   restoreProfile example_env ''broken'' empty_linux_home =
     (Inl (VerificationFailed [''Failed to extract profile archive'']), empty_linux_home)"
proof -
  have name1: "validateProfileName ''mac''" and name2: "validateProfileName ''broken''"
    by (simp_all add: validateProfileName_def PROFILE_NAME_char_def)
  have local: "verifyLocalFiles example_env empty_linux_home =
      \<lparr>valid = False,
       issues = [''Missing required file: Claude credentials (file)'',
                 ''Missing required file: Claude configuration'']\<rparr>"
    by (simp add: example_defs verifyLocalFiles_def local_checks_def verify_local_check_def
        add_issue_def getKeychainCredentials_def path_defs Let_def)
  have d1: "download_profile example_env empty_linux_home ''mac'' = Inr ''bWFj''"
    and d2: "download_profile example_env empty_linux_home ''broken'' = Inr ''eHh4''"
    by (simp_all add: example_defs download_profile_def read_base64Data_def trim_def is_space_def)
  have v1: "verifyDownloadedProfile example_env Other_platform ''bWFj'' =
      \<lparr>valid = False, issues = [''Missing: Claude credentials (file)'']\<rparr>"
    by (simp add: example_defs verifyDownloadedProfile_def verify_extracted_def
        unzip_entries_def unzip_entry_def parent_dirs_def mkdir_if_absent_def write_node_def
        stat_def downloaded_checks_def verify_downloaded_check_def add_issue_def)
  have u2: "unzip_bytes example_env ''eHh4'' = None"
    by (simp add: example_defs)
  have pf: "platform empty_linux_home = Other_platform"
    by (simp add: example_defs)
  show ?thesis
    using failed_gate_blocks [OF name1, of example_env empty_linux_home "''bWFj''"]
      failed_gate_blocks [OF name2, of example_env empty_linux_home "''eHh4''"]
    by (simp add: local d1 d2 v1 u2 pf)
qed

subsection \<open>Properties of the fingerprint\<close>

lemma map_of_mset_eq:
  assumes "distinct (map fst xs)" and "mset ys = mset xs"
  shows "map_of ys = map_of xs"
proof -
  have "mset (map fst ys) = mset (map fst xs)" using assms(2) by simp
  then have "distinct (map fst ys)" using assms(1) by (metis mset_eq_imp_distinct_iff)
  moreover have "set ys = set xs" using assms(2) by (rule mset_eq_setD)
  ultimately show ?thesis using assms(1) by (simp add: map_of_inject_set)
qed

lemma sort_mset_eq: "mset xs = mset ys \<Longrightarrow> sort xs = sort ys"
  by (metis properties_for_sort mset_sort sorted_sort)

lemma mset_map_filter:
  "mset ys = mset xs \<Longrightarrow> mset (List.map_filter f ys) = mset (List.map_filter f xs)"
  by (metis map_filter_def mset_filter mset_map)

lemma stat_permuted:
  "distinct (map fst fs) \<Longrightarrow> mset fs' = mset fs \<Longrightarrow> stat fs' = stat fs"
  by (auto simp: stat_def fun_eq_iff dest: map_of_mset_eq)

lemma sorted_listing_permuted:
  "mset fs' = mset fs \<Longrightarrow> sort (readdir_recursive fs' d) = sort (readdir_recursive fs d)"
  unfolding readdir_recursive_def by (intro sort_mset_eq mset_map_filter)

lemma hash_updates_permuted:
  assumes "distinct (map fst (files w))" and "mset fs' = mset (files w)"
  shows "hash_updates (w\<lparr>files := fs'\<rparr>) = hash_updates w"
proof -
  have st: "stat fs' = stat (files w)" using assms by (rule stat_permuted)
  have dir: "hash_directory fs' p = hash_directory (files w) p" for p
    by (simp add: hash_directory_def hash_file_def st sorted_listing_permuted [OF assms(2)])
  have "hash_item (w\<lparr>files := fs'\<rparr>) = hash_item w"
    by (rule ext) (simp add: hash_item_def st dir Let_def split: option.splits node.splits)
  then show ?thesis
    by (simp add: hash_updates_def getKeychainCredentials_def)
qed

text \<open>
  C9 (the fingerprint does not depend on the enumeration order). Two file systems that
  hold the same paths with the same contents, enumerated in different orders (each path
  once), and the same keychain entry, have the same fingerprint: the listing of a
  directory is sorted before it is folded into the hash and before the files are read.
\<close>

theorem fingerprint_order_independent:
  assumes "distinct (map fst (files w))" and "mset fs' = mset (files w)"
  shows "calculateFilesHash e (w\<lparr>files := fs'\<rparr>) = calculateFilesHash e w"
  using assms by (simp add: calculateFilesHash_def hash_updates_permuted)

theorem fingerprint_order_independent_witness:
  "calculateFilesHash linux_env (linux_home\<lparr>files := rev (files linux_home)\<rparr>) =
   calculateFilesHash linux_env linux_home"
  using fingerprint_order_independent [of linux_home "rev (files linux_home)" linux_env]
  by (simp add: linux_home_def)

text \<open>The updates of the example: the sorted listing of \<open>~/.claude\<close> joined with bars first.\<close>

lemma hash_updates_example:
  "hash_updates linux_home =
     [''.claude|.claude/settings.json|.credentials.json|settings.json'',
      ''first-restore'', ''local-token'', ''local-settings'', ''local-config'']"
  by code_simp

subsection \<open>Properties of the archive codec\<close>

lemma stat_write_node: "stat (write_node fs p n) q = (if q = p then Some n else stat fs q)"
  by (simp add: stat_def write_node_def update_conv')

lemma mkdir_if_absent_keeps: "stat fs k = Some v \<Longrightarrow> stat (mkdir_if_absent fs d) k = Some v"
  by (auto simp: mkdir_if_absent_def stat_write_node)

lemma foldl_mkdir_keeps: "stat fs k = Some v \<Longrightarrow> stat (foldl mkdir_if_absent fs ds) k = Some v"
  by (induction ds arbitrary: fs) (simp_all add: mkdir_if_absent_keeps)

lemma unzip_entry_keeps:
  "stat fs k = Some v \<Longrightarrow> k \<noteq> fst x \<Longrightarrow> stat (unzip_entry fs x) k = Some v"
  by (simp add: unzip_entry_def stat_write_node foldl_mkdir_keeps)

lemma unzip_entry_writes: "stat (unzip_entry fs x) (fst x) = Some (snd x)"
  by (simp add: unzip_entry_def stat_write_node)

lemma unzip_lookup:
  assumes "(name, n) \<in> set ar" and "\<And>n'. (name, n') \<in> set ar \<Longrightarrow> n' = n"
  shows "stat (foldl unzip_entry fs ar) name = Some n"
  using assms
proof (induction ar rule: rev_induct)
  case Nil
  then show ?case by simp
next
  case (snoc x xs)
  show ?case
  proof (cases "fst x = name")
    case True
    then have "(name, snd x) \<in> set (xs @ [x])" by (cases x) auto
    then have "snd x = n" by (rule snoc.prems(2))
    with True show ?thesis using unzip_entry_writes [of "foldl unzip_entry fs xs" x] by simp
  next
    case False
    then have "(name, n) \<in> set xs" using snoc.prems(1) by auto
    moreover have "\<And>n'. (name, n') \<in> set xs \<Longrightarrow> n' = n" using snoc.prems(2) by simp
    ultimately have "stat (foldl unzip_entry fs xs) name = Some n" by (rule snoc.IH)
    with False show ?thesis by (simp add: unzip_entry_keeps)
  qed
qed

lemma strip_prefix_eq: "strip_prefix p s = Some r \<longleftrightarrow> s = p @ r"
  by (induction p s rule: strip_prefix.induct) auto

lemma strip_prefix_slash [simp]: "strip_prefix (d @ ''/'') (d @ CHR ''/'' # rel) = Some rel"
  by (simp add: strip_prefix_eq)

lemma in_archive_directory:
  "(name, n) \<in> set (archive_directory fs d dst) \<longleftrightarrow>
   (\<exists>rel. name = dst @ ''/'' @ rel \<and> (d @ ''/'' @ rel, n) \<in> set fs)"
  unfolding archive_directory_def path_join_def
  by (induction fs) (auto simp: strip_prefix_eq split: option.splits)

lemma join_inj:
  "CHR ''/'' \<notin> set a \<Longrightarrow> CHR ''/'' \<notin> set b \<Longrightarrow> a @ ''/'' @ r = b @ ''/'' @ r' \<Longrightarrow> a = b \<and> r = r'"
proof (induction a arbitrary: b)
  case Nil
  then show ?case by (cases b) auto
next
  case (Cons x a)
  then show ?case by (cases b) auto
qed

lemma no_slash_neq: "CHR ''/'' \<notin> set a \<Longrightarrow> a \<noteq> b @ ''/'' @ r"
  by auto


lemma in_add_to_archive:
  "(name, n) \<in> set (add_to_archive w item) \<longleftrightarrow>
     (name = dest item \<and> (\<exists>b. n = File b) \<and>
      stat (files w) (expandHome (homedir w) (source item)) = Some n) \<or>
     (stat (files w) (expandHome (homedir w) (source item)) = Some Dir \<and>
      (\<exists>rel. name = dest item @ ''/'' @ rel \<and>
             (expandHome (homedir w) (source item) @ ''/'' @ rel, n) \<in> set (files w)))"
proof (cases "stat (files w) (expandHome (homedir w) (source item))")
  case None
  then show ?thesis by (simp add: add_to_archive_def)
next
  case (Some nd)
  then show ?thesis
    by (cases nd) (auto simp: add_to_archive_def archive_file_def in_archive_directory)
qed

lemma in_keychain_entry:
  "(name, n) \<in> set (keychain_entry e w) \<longleftrightarrow>
     (platform w = Darwin \<and> name = ''.macos.credentials.json'' \<and>
      (\<exists>c. keychain w = Some c \<and> n = File (json_pretty e c)))"
  by (cases "platform w"; cases "keychain w")
    (auto simp: keychain_entry_def getKeychainCredentials_def)

lemma in_build_archive:
  "(name, n) \<in> set (build_archive e w) \<longleftrightarrow>
     (\<exists>item \<in> set BACKUP_PATHS. (name, n) \<in> set (add_to_archive w item)) \<or>
     (name, n) \<in> set (keychain_entry e w)"
  by (auto simp: build_archive_def)

lemma dest_no_slash: "item \<in> set BACKUP_PATHS \<Longrightarrow> CHR ''/'' \<notin> set (dest item)"
  by (auto simp: BACKUP_PATHS_def)

lemma dest_inj:
  "item \<in> set BACKUP_PATHS \<Longrightarrow> item' \<in> set BACKUP_PATHS \<Longrightarrow> dest item = dest item' \<Longrightarrow> item = item'"
  by (auto simp: BACKUP_PATHS_def)

lemma dest_not_keychain: "item \<in> set BACKUP_PATHS \<Longrightarrow> dest item \<noteq> ''.macos.credentials.json''"
  by (auto simp: BACKUP_PATHS_def)

lemma roundtrip_file:
  assumes "item \<in> set BACKUP_PATHS"
    and "stat (files w) (expandHome (homedir w) (source item)) = Some (File b)"
  shows "stat (unzip_entries (build_archive e w)) (dest item) = Some (File b)"
  unfolding unzip_entries_def
proof (rule unzip_lookup)
  show "(dest item, File b) \<in> set (build_archive e w)"
    using assms by (auto simp: in_build_archive in_add_to_archive)
next
  fix n' assume "(dest item, n') \<in> set (build_archive e w)"
  then consider
      (from_item) item' where "item' \<in> set BACKUP_PATHS" "(dest item, n') \<in> set (add_to_archive w item')"
    | (from_keychain) "(dest item, n') \<in> set (keychain_entry e w)"
    by (auto simp: in_build_archive)
  then show "n' = File b"
  proof cases
    case from_item
    from from_item(2) consider
        (isfile) "dest item = dest item'" "stat (files w) (expandHome (homedir w) (source item')) = Some n'"
      | (isdir) rel where "dest item = dest item' @ ''/'' @ rel"
      by (auto simp: in_add_to_archive)
    then show ?thesis
    proof cases
      case isfile
      then have "item = item'" using assms(1) from_item(1) by (auto dest: dest_inj)
      with isfile(2) assms(2) show ?thesis by simp
    next
      case isdir
      then show ?thesis using dest_no_slash [OF assms(1)] by (auto simp: no_slash_neq)
    qed
  next
    case from_keychain
    then show ?thesis using dest_not_keychain [OF assms(1)] by (auto simp: in_keychain_entry)
  qed
qed

lemma roundtrip_directory:
  assumes "distinct (map fst (files w))" and "item \<in> set BACKUP_PATHS"
    and "stat (files w) (expandHome (homedir w) (source item)) = Some Dir"
    and "stat (files w) (expandHome (homedir w) (source item) @ ''/'' @ rel) = Some n"
  shows "stat (unzip_entries (build_archive e w)) (dest item @ ''/'' @ rel) = Some n"
  unfolding unzip_entries_def
proof (rule unzip_lookup)
  have "(expandHome (homedir w) (source item) @ ''/'' @ rel, n) \<in> set (files w)"
    using assms(4) by (auto simp: stat_def dest: map_of_SomeD)
  then show "(dest item @ ''/'' @ rel, n) \<in> set (build_archive e w)"
    using assms(2,3) by (auto simp: in_build_archive in_add_to_archive)
next
  fix n' assume "(dest item @ ''/'' @ rel, n') \<in> set (build_archive e w)"
  then consider
      (from_item) item' where "item' \<in> set BACKUP_PATHS"
        "(dest item @ ''/'' @ rel, n') \<in> set (add_to_archive w item')"
    | (from_keychain) "(dest item @ ''/'' @ rel, n') \<in> set (keychain_entry e w)"
    by (auto simp: in_build_archive)
  then show "n' = n"
  proof cases
    case from_item
    from from_item(2) consider
        (isfile) "dest item @ ''/'' @ rel = dest item'"
      | (isdir) rel' where "dest item @ ''/'' @ rel = dest item' @ ''/'' @ rel'"
          "(expandHome (homedir w) (source item') @ ''/'' @ rel', n') \<in> set (files w)"
      by (auto simp: in_add_to_archive)
    then show ?thesis
    proof cases
      case isfile
      then show ?thesis using dest_no_slash [OF from_item(1)] no_slash_neq [of "dest item'" "dest item" rel]
        by simp
    next
      case isdir
      have "dest item = dest item' \<and> rel = rel'"
        using join_inj [OF dest_no_slash [OF assms(2)] dest_no_slash [OF from_item(1)] isdir(1)] .
      then have "item = item'" "rel' = rel" using assms(2) from_item(1) by (auto dest: dest_inj)
      with isdir(2) have "map_of (files w) (expandHome (homedir w) (source item) @ ''/'' @ rel) = Some n'"
        using assms(1) by simp
      with assms(4) show ?thesis by (simp add: stat_def)
    qed
  next
    case from_keychain
    then have "dest item @ ''/'' @ rel = ''.macos.credentials.json''"
      by (auto simp: in_keychain_entry)
    then have "CHR ''/'' \<in> set ''.macos.credentials.json''"
      by (metis in_set_conv_decomp append_Cons)
    then show ?thesis by simp
  qed
qed

lemma roundtrip_keychain:
  assumes "platform w = Darwin" and "keychain w = Some c"
  shows "stat (unzip_entries (build_archive e w)) ''.macos.credentials.json'' =
         Some (File (json_pretty e c))"
  unfolding unzip_entries_def
proof (rule unzip_lookup)
  show "(''.macos.credentials.json'', File (json_pretty e c)) \<in> set (build_archive e w)"
    using assms by (auto simp: in_build_archive in_keychain_entry)
next
  fix n' assume "(''.macos.credentials.json'', n') \<in> set (build_archive e w)"
  then consider
      (from_item) item' where "item' \<in> set BACKUP_PATHS"
        "(''.macos.credentials.json'', n') \<in> set (add_to_archive w item')"
    | (from_keychain) "(''.macos.credentials.json'', n') \<in> set (keychain_entry e w)"
    by (auto simp: in_build_archive)
  then show "n' = File (json_pretty e c)"
  proof cases
    case from_item
    from from_item(2) consider
        (isfile) "''.macos.credentials.json'' = dest item'"
      | (isdir) rel where "''.macos.credentials.json'' = dest item' @ ''/'' @ rel"
      by (auto simp: in_add_to_archive)
    then show ?thesis
    proof cases
      case isfile
      then show ?thesis using dest_not_keychain [OF from_item(1)] by simp
    next
      case isdir
      then have "CHR ''/'' \<in> set ''.macos.credentials.json''"
        by (metis in_set_conv_decomp append_Cons)
      then show ?thesis by simp
    qed
  next
    case from_keychain
    then show ?thesis using assms by (auto simp: in_keychain_entry)
  qed
qed

text \<open>
  C5 (round trip). For a file system that lists each path once: building the archive of
  the store and extracting it into a fresh directory puts, under the entry name of every
  watched source, what the source holds: the bytes of a source that is a file, and for a
  source that is a directory every path below it with its bytes; on macOS the keychain
  entry is found under its fixed name, with the serialised credentials.
\<close>

theorem archive_roundtrip:
  assumes "distinct (map fst (files w))" and "item \<in> set BACKUP_PATHS"
  shows "(stat (files w) (expandHome (homedir w) (source item)) = Some (File bytes) \<longrightarrow>
            stat (unzip_entries (build_archive e w)) (dest item) = Some (File bytes)) \<and>
         (stat (files w) (expandHome (homedir w) (source item)) = Some Dir \<and>
          stat (files w) (path_join (expandHome (homedir w) (source item)) rel) = Some n \<longrightarrow>
            stat (unzip_entries (build_archive e w)) (path_join (dest item) rel) = Some n) \<and>
         (platform w = Darwin \<and> keychain w = Some creds \<longrightarrow>
            stat (unzip_entries (build_archive e w)) ''.macos.credentials.json'' =
              Some (File (json_pretty e creds)))"
  using assms roundtrip_file [of item w bytes e] roundtrip_directory [of w item rel n e]
    roundtrip_keychain [of w creds e]
  by (simp add: path_join_def)

theorem archive_roundtrip_witness:
  "stat (unzip_entries (build_archive linux_env linux_home)) ''.claude/settings.json'' =
     Some (File ''local-settings'') \<and>
   stat (unzip_entries (build_archive linux_env linux_home)) ''.claude/.claude/settings.json'' =
     Some (File ''first-restore'') \<and>
   stat (unzip_entries (build_archive example_env macos_home)) ''.claude.json'' =
     Some (File ''[3]'') \<and>
   stat (unzip_entries (build_archive example_env macos_home)) ''.macos.credentials.json'' =
     Some (File ''[1, 2]'')"
  using
    archive_roundtrip [of linux_home "\<lparr>source = ''~/.claude'', dest = ''.claude''\<rparr>"
      "''none''" linux_env "''settings.json''" "File ''local-settings''" "''none''"]
    archive_roundtrip [of linux_home "\<lparr>source = ''~/.claude'', dest = ''.claude''\<rparr>"
      "''none''" linux_env "''.claude/settings.json''" "File ''first-restore''" "''none''"]
    archive_roundtrip [of macos_home "\<lparr>source = ''~/.claude.json'', dest = ''.claude.json''\<rparr>"
      "''[3]''" example_env "''none''" Dir "''[1, 2]''"]
  by (simp add: example_defs linux_home_def linux_env_def BACKUP_PATHS_def path_defs)

subsection \<open>Properties of restore\<close>

text \<open>
  C10 (restore leaves files without an archive entry alone). The claim: a restore copies
  the entries over their configured local paths and changes no other local file. The
  directory is restored with \<open>cp -r extractDir/.claude ~/.claude\<close>; when \<open>~/.claude\<close>
  exists the copy lands in \<open>~/.claude/.claude\<close>. Below, \<open>~/.claude/.claude/settings.json\<close>
  has no entry in the archive (its entry would be \<open>.claude/.claude/settings.json\<close>) and
  is overwritten with the bytes of the entry \<open>.claude/settings.json\<close>, whose own local
  path \<open>~/.claude/settings.json\<close> keeps its old content.
\<close>

theorem restore_overwrites_nested_copy:
  "stat (files linux_home) ''/home/user/.claude/.claude/settings.json'' =
     Some (File ''first-restore'') \<and>
   map_of linux_archive ''.claude/.claude/settings.json'' = None \<and>
   fst (restoreProfile linux_env ''linux'' linux_home) = Inr () \<and>
   stat (files (snd (restoreProfile linux_env ''linux'' linux_home)))
     ''/home/user/.claude/.claude/settings.json'' = Some (File ''stored-settings'') \<and>
   stat (files (snd (restoreProfile linux_env ''linux'' linux_home)))
     ''/home/user/.claude/settings.json'' = Some (File ''local-settings'')"
  by code_simp

end
